theory Spec2Isabelle
  imports Complex_Main
begin

section \<open>Errors, log lines and the trace of effects\<close>

text \<open>
  The bootstrap steps of \<^verbatim>\<open>init/bootstrap.go\<close> and the client command of
  \<^verbatim>\<open>client/cli/commands/create/cmd_create.go\<close> are sequences of calls into the kernel
  and into libraries. Each step is embedded as a function that takes the state of the
  world, calls the collaborators in the order the Go code does, and returns the Go
  return value, the new world and the trace of what it did.

  A Go \<^verbatim>\<open>error\<close> is either an error some collaborator returned, or one built by
  \<^verbatim>\<open>fmt.Errorf\<close>, kept here as the format string with its arguments.
\<close>

datatype error =
    External string
  | NotExist string
  | Errorf string "fmtarg list"
and fmtarg =
    S string
  | E error

text \<open>\<^verbatim>\<open>os.IsNotExist\<close>; a \<^verbatim>\<open>nil\<close> error is \<open>None\<close>.\<close>

fun os_IsNotExist :: "error option \<Rightarrow> bool" where
  "os_IsNotExist (Some (NotExist _)) = True"
| "os_IsNotExist _ = False"

datatype level = LTrace | LInfo | LWarn | LError

text \<open>
  Modelled from the spec: the types \<^verbatim>\<open>kurmaNetworkConfig\<close> and \<^verbatim>\<open>kurmaNetworkInterface\<close>
  are declared in a file of the package that is not among the sources. Section 3 of the
  specification gives a network configuration an ordered list of interface entries, a
  gateway and an ordered list of DNS servers, and an entry a device pattern and
  per-link settings; the field names are the ones \<^verbatim>\<open>configureNetwork\<close> reads, and
  \<open>Settings\<close> stands for what only \<^verbatim>\<open>configureInterface\<close> reads. The entries of
  \<open>Interfaces\<close> are pointers in Go and are taken to be non-nil.

  A route is what \<^verbatim>\<open>netlink.RouteAdd\<close> receives; a parsed address is known by its text,
  and \<open>None\<close> is the nil address.
\<close>

record kurmaNetworkInterface =
  Device :: string
  Settings :: string

record kurmaNetworkConfig =
  Interfaces :: "kurmaNetworkInterface list"
  Gateway :: string
  DNS :: "string list"

datatype scope = SCOPE_UNIVERSE

record route =
  Scope :: scope
  Gw :: "string option"

text \<open>
  One entry of the trace: a line written through \<^verbatim>\<open>r.log\<close> (level, format string,
  arguments), or a call to a collaborator together with what it returned.
\<close>

datatype event =
    Log level string "fmtarg list"
  | Mount string string string string "error option"
  | OpenFile string "error option"
  | WriteString string string "error option"
  | Close string
  | Sethostname string "error option"
  | LinkList "error option"
  | ConfigureInterface string kurmaNetworkInterface "error option"
  | RouteAdd route "error option"
  | RemoveAll string "error option"
  | RetrieveImage string "error option"
  | FindManifest string "error option"
  | Seek string "error option"
  | ManagerCreate string string string "error option"
  | Lstat string "error option"
  | MountPoints "error option"

text \<open>
  The collaborators of \<^verbatim>\<open>bootstrap.go\<close>, none of which is part of the file: each is a
  function of the world \<open>'w\<close> that returns its Go result and the world after the call.
  \<open>filepath_Join\<close>, \<open>regexp_MatchString\<close> and \<open>net_ParseIP\<close> are pure. A file, a link
  and a manifest are known by a name (the path or the image, the link's
  \<^verbatim>\<open>Attrs().Name\<close>, the manifest's \<^verbatim>\<open>Name.String()\<close>). \<open>init_findManifest\<close> is the
  \<^verbatim>\<open>findManifest\<close> of package \<^verbatim>\<open>init\<close>, which is not the one of the client command.
\<close>

record 'w extern =
  handleMount :: "string \<Rightarrow> string \<Rightarrow> string \<Rightarrow> string \<Rightarrow> 'w \<Rightarrow> error option \<times> 'w"
  os_OpenFile :: "string \<Rightarrow> 'w \<Rightarrow> error option \<times> 'w"
  f_WriteString :: "string \<Rightarrow> string \<Rightarrow> 'w \<Rightarrow> error option \<times> 'w"
  f_Close :: "string \<Rightarrow> 'w \<Rightarrow> 'w"
  syscall_Sethostname :: "string \<Rightarrow> 'w \<Rightarrow> error option \<times> 'w"
  os_Lstat :: "string \<Rightarrow> 'w \<Rightarrow> error option \<times> 'w"
  proc_MountPoints :: "'w \<Rightarrow> (error + (string \<rightharpoonup> string)) \<times> 'w"
  filepath_Join :: "string \<Rightarrow> string \<Rightarrow> string"
  netlink_LinkList :: "'w \<Rightarrow> (error + string list) \<times> 'w"
  regexp_MatchString :: "string \<Rightarrow> string \<Rightarrow> bool \<times> error option"
  configureInterface :: "string \<Rightarrow> kurmaNetworkInterface \<Rightarrow> 'w \<Rightarrow> error option \<times> 'w"
  net_ParseIP :: "string \<Rightarrow> string option"
  netlink_RouteAdd :: "route \<Rightarrow> 'w \<Rightarrow> error option \<times> 'w"
  os_RemoveAll :: "string \<Rightarrow> 'w \<Rightarrow> error option \<times> 'w"
  remote_RetrieveImage :: "string \<Rightarrow> 'w \<Rightarrow> (error + string) \<times> 'w"
  init_findManifest :: "string \<Rightarrow> 'w \<Rightarrow> (error + string) \<times> 'w"
  f_Seek :: "string \<Rightarrow> 'w \<Rightarrow> error option \<times> 'w"
  manager_Create :: "string \<Rightarrow> string \<Rightarrow> string \<Rightarrow> 'w \<Rightarrow> error option \<times> 'w"

section \<open>The hostname step\<close>

text \<open>
  \<^verbatim>\<open>
  func (r *runner) configureHostname() error {
      if r.config.Hostname == "" {
          return nil
      }
      r.log.Infof("Setting hostname: %s", r.config.Hostname)
      if err := syscall.Sethostname([]byte(r.config.Hostname)); err != nil {
          r.log.Errorf("- Failed to set hostname: %v", err)
      }
      return nil
  }
  \<close>
\<close>

definition configureHostname ::
  "'w extern \<Rightarrow> string \<Rightarrow> 'w \<Rightarrow> error option \<times> 'w \<times> event list" where
  "configureHostname x Hostname w =
     (if Hostname = [] then (None, w, [])
      else (case syscall_Sethostname x Hostname w of
              (Some err, w') \<Rightarrow>
                (None, w',
                 [Log LInfo ''Setting hostname: %s'' [S Hostname],
                  Sethostname Hostname (Some err),
                  Log LError ''- Failed to set hostname: %v'' [E err]])
            | (None, w') \<Rightarrow>
                (None, w',
                 [Log LInfo ''Setting hostname: %s'' [S Hostname],
                  Sethostname Hostname None])))"

section \<open>System mounts\<close>

text \<open>
  A mount of the list is (mount location, source, fstype), as the Go comment says.
  \<^verbatim>\<open>cgroupsMount\<close> is a constant of the package that is declared in another file; it is
  a parameter here. \<^verbatim>\<open>proc.MountProcFile\<close> is the mount table of the kernel.
\<close>

type_synonym mountspec = "string \<times> string \<times> string"

definition systemMounts :: "string \<Rightarrow> mountspec list" where
  "systemMounts cgroupsMount =
     [(''/dev'', ''devtmpfs'', ''devtmpfs''),
      (''/dev/pts'', ''none'', ''devpts''),
      (''/proc'', ''none'', ''proc''),
      (''/sys'', ''none'', ''sysfs''),
      (''/tmp'', ''none'', ''tmpfs''),
      (''/var/kurma'', ''none'', ''tmpfs''),
      (cgroupsMount, ''none'', ''tmpfs'')]"

definition MountProcFile :: string where
  "MountProcFile = ''/proc/mounts''"

text \<open>
  The loop over the list (lines 83 to 98):
  \<^verbatim>\<open>
  for _, mount := range systemMounts {
      location, source, fstype := mount[0], mount[1], mount[2]
      if _, exists := existingMounts[location]; exists {
          r.log.Tracef("- skipping %q, already mounted", location)
          continue
      }
      r.log.Tracef("- mounting %q (type %q) to %q", source, fstype, location)
      if err := handleMount(source, location, fstype, ""); err != nil {
          return fmt.Errorf("failed to mount %q: %v", location, err)
      }
  }
  return nil
  \<close>
\<close>

fun mountEach ::
  "'w extern \<Rightarrow> (string \<rightharpoonup> 'm) \<Rightarrow> mountspec list \<Rightarrow> 'w \<Rightarrow> error option \<times> 'w \<times> event list" where
  "mountEach x existingMounts [] w = (None, w, [])"
| "mountEach x existingMounts ((location, source, fstype) # rest) w =
     (if existingMounts location \<noteq> None then
        (case mountEach x existingMounts rest w of
           (r, w', evs) \<Rightarrow>
             (r, w', Log LTrace ''- skipping %q, already mounted'' [S location] # evs))
      else
        (case handleMount x source location fstype [] w of
           (Some err, w') \<Rightarrow>
             (Some (Errorf ''failed to mount %q: %v'' [S location, E err]), w',
              [Log LTrace ''- mounting %q (type %q) to %q'' [S source, S fstype, S location],
               Mount source location fstype [] (Some err)])
         | (None, w') \<Rightarrow>
             (case mountEach x existingMounts rest w' of
                (r, w'', evs) \<Rightarrow>
                  (r, w'',
                   Log LTrace ''- mounting %q (type %q) to %q'' [S source, S fstype, S location]
                   # Mount source location fstype [] None # evs))))"

text \<open>
  The whole step: the snapshot of the existing mounts is empty when the mount table
  does not exist, is read from it when it does, and any other failure of the check
  ends the step before the loop.
\<close>

definition createSystemMounts ::
  "'w extern \<Rightarrow> string \<Rightarrow> 'w \<Rightarrow> error option \<times> 'w \<times> event list" where
  "createSystemMounts x cgroupsMount w =
     (let start = Log LInfo ''Creating system mounts'' [] in
      case os_Lstat x MountProcFile w of
        (Some err, w1) \<Rightarrow>
          if \<not> os_IsNotExist (Some err) then
            (Some (Errorf ''failed to check if %q existed: %v'' [S MountProcFile, E err]), w1,
             [start, Lstat MountProcFile (Some err)])
          else
            (case mountEach x (Map.empty :: string \<rightharpoonup> string)
                    (systemMounts cgroupsMount) w1 of
               (r, w2, evs) \<Rightarrow> (r, w2, start # Lstat MountProcFile (Some err) # evs))
      | (None, w1) \<Rightarrow>
          (case proc_MountPoints x w1 of
             (Inl err', w2) \<Rightarrow>
               (Some (Errorf ''failed to read existing mount points: %v'' [E err']), w2,
                [start, Lstat MountProcFile None, MountPoints (Some err')])
           | (Inr existingMounts, w2) \<Rightarrow>
               (case mountEach x existingMounts (systemMounts cgroupsMount) w2 of
                  (r, w3, evs) \<Rightarrow>
                    (r, w3, start # Lstat MountProcFile None # MountPoints None # evs))))"

text \<open>What a trace says about mounts: the calls of \<^verbatim>\<open>handleMount\<close>, and their targets.\<close>

fun mountCalls :: "event list \<Rightarrow> event list" where
  "mountCalls [] = []"
| "mountCalls (Mount source location fstype opts r # evs) =
     Mount source location fstype opts r # mountCalls evs"
| "mountCalls (_ # evs) = mountCalls evs"

fun mountTargets :: "event list \<Rightarrow> string list" where
  "mountTargets [] = []"
| "mountTargets (Mount source location fstype opts r # evs) = location # mountTargets evs"
| "mountTargets (_ # evs) = mountTargets evs"

text \<open>The mounts of a list that are not in the snapshot, and the call made for one.\<close>

definition notMounted :: "(string \<rightharpoonup> 'm) \<Rightarrow> mountspec list \<Rightarrow> mountspec list" where
  "notMounted existingMounts ms = filter (\<lambda>m. existingMounts (fst m) = None) ms"

definition mountCall :: "error option \<Rightarrow> mountspec \<Rightarrow> event" where
  "mountCall r m = Mount (fst (snd m)) (fst m) (snd (snd m)) [] r"

section \<open>Cgroups\<close>

definition cgroupTypes :: "string list" where
  "cgroupTypes = [''blkio'', ''cpu'', ''cpuacct'', ''devices'', ''memory'']"

text \<open>
  The function literal that sets \<^verbatim>\<open>memory.use_hierarchy\<close> (lines 132 to 143). The file is
  closed by the \<^verbatim>\<open>defer\<close> once it was opened, whatever the write returned.
  \<^verbatim>\<open>
  hpath := filepath.Join(location, "memory.use_hierarchy")
  f, err := os.OpenFile(hpath, os.O_WRONLY|os.O_TRUNC, os.FileMode(0644))
  if err != nil {
      return fmt.Errorf("Failed to configure memory hierarchy: %v", err)
  }
  defer f.Close()
  if _, err := f.WriteString("1\n"); err != nil {
      return fmt.Errorf("Failed to configure memory heirarchy: %v", err)
  }
  return nil
  \<close>
\<close>

definition useHierarchy ::
  "'w extern \<Rightarrow> string \<Rightarrow> 'w \<Rightarrow> error option \<times> 'w \<times> event list" where
  "useHierarchy x location w =
     (let hpath = filepath_Join x location ''memory.use_hierarchy'' in
      case os_OpenFile x hpath w of
        (Some err, w1) \<Rightarrow>
          (Some (Errorf ''Failed to configure memory hierarchy: %v'' [E err]), w1,
           [OpenFile hpath (Some err)])
      | (None, w1) \<Rightarrow>
          (case f_WriteString x hpath [CHR ''1'', CHR 0x0A] w1 of
             (Some err, w2) \<Rightarrow>
               (Some (Errorf ''Failed to configure memory heirarchy: %v'' [E err]),
                f_Close x hpath w2,
                [OpenFile hpath None, WriteString hpath [CHR ''1'', CHR 0x0A] (Some err),
                 Close hpath])
           | (None, w2) \<Rightarrow>
               (None, f_Close x hpath w2,
                [OpenFile hpath None, WriteString hpath [CHR ''1'', CHR 0x0A] None,
                 Close hpath])))"

text \<open>
  The loop of \<^verbatim>\<open>mountCgroups\<close> (lines 123 to 148):
  \<^verbatim>\<open>
  for _, cgrouptype := range cgroupTypes {
      location := filepath.Join(cgroupsMount, cgrouptype)
      r.log.Tracef("- mounting cgroup %q to %q", cgrouptype, location)
      if err := handleMount("none", location, "cgroup", cgrouptype); err != nil {
          return fmt.Errorf("failed to mount cgroup %q: %v", cgrouptype, err)
      }
      if cgrouptype == "memory" {
          err := func() error { ... }()
          if err != nil {
              return err
          }
      }
  }
  return nil
  \<close>
\<close>

fun mountCgroupTypes ::
  "'w extern \<Rightarrow> string \<Rightarrow> string list \<Rightarrow> 'w \<Rightarrow> error option \<times> 'w \<times> event list" where
  "mountCgroupTypes x cgroupsMount [] w = (None, w, [])"
| "mountCgroupTypes x cgroupsMount (cgrouptype # rest) w =
     (let location = filepath_Join x cgroupsMount cgrouptype;
          tracef = Log LTrace ''- mounting cgroup %q to %q'' [S cgrouptype, S location]
      in
      case handleMount x ''none'' location ''cgroup'' cgrouptype w of
        (Some err, w1) \<Rightarrow>
          (Some (Errorf ''failed to mount cgroup %q: %v'' [S cgrouptype, E err]), w1,
           [tracef, Mount ''none'' location ''cgroup'' cgrouptype (Some err)])
      | (None, w1) \<Rightarrow>
          if cgrouptype = ''memory'' then
            (case useHierarchy x location w1 of
               (Some err, w2, evs) \<Rightarrow>
                 (Some err, w2, tracef # Mount ''none'' location ''cgroup'' cgrouptype None # evs)
             | (None, w2, evs) \<Rightarrow>
                 (case mountCgroupTypes x cgroupsMount rest w2 of
                    (r, w3, evs') \<Rightarrow>
                      (r, w3,
                       tracef # Mount ''none'' location ''cgroup'' cgrouptype None # evs @ evs')))
          else
            (case mountCgroupTypes x cgroupsMount rest w1 of
               (r, w2, evs) \<Rightarrow>
                 (r, w2, tracef # Mount ''none'' location ''cgroup'' cgrouptype None # evs)))"

definition mountCgroups ::
  "'w extern \<Rightarrow> string \<Rightarrow> 'w \<Rightarrow> error option \<times> 'w \<times> event list" where
  "mountCgroups x cgroupsMount w =
     (case mountCgroupTypes x cgroupsMount cgroupTypes w of
        (r, w', evs) \<Rightarrow> (r, w', Log LInfo ''Setting up cgroups'' [] # evs))"

section \<open>Network\<close>

text \<open>
  The search for the entry of a link (lines 202 to 212). \<^verbatim>\<open>regexp.MatchString\<close> returns
  the match and an error; the code drops the error.
  \<^verbatim>\<open>
  var netconf *kurmaNetworkInterface
  for _, n := range r.config.NetworkConfig.Interfaces {
      if linkName == n.Device {
          netconf = n
          break
      }
      if match, _ := regexp.MatchString(n.Device, linkName); match {
          netconf = n
          break
      }
  }
  \<close>
\<close>

fun findNetconf ::
  "(string \<Rightarrow> string \<Rightarrow> bool \<times> error option) \<Rightarrow> string \<Rightarrow>
   kurmaNetworkInterface list \<Rightarrow> kurmaNetworkInterface option" where
  "findNetconf MatchString linkName [] = None"
| "findNetconf MatchString linkName (n # ns) =
     (if linkName = Device n then Some n
      else if fst (MatchString (Device n) linkName) then Some n
      else findNetconf MatchString linkName ns)"

text \<open>
  The rule as the specification words it, for comparison: exact equality is looked for
  across all entries first, and only when no entry is equal to the link name is the
  first entry taken whose device, read as a regular expression, matches.
\<close>

definition spec_findNetconf ::
  "(string \<Rightarrow> string \<Rightarrow> bool \<times> error option) \<Rightarrow> string \<Rightarrow>
   kurmaNetworkInterface list \<Rightarrow> kurmaNetworkInterface option" where
  "spec_findNetconf MatchString linkName ns =
     (case find (\<lambda>n. linkName = Device n) ns of
        Some n \<Rightarrow> Some n
      | None \<Rightarrow> find (\<lambda>n. fst (MatchString (Device n) linkName)) ns)"

text \<open>The loop over the links (lines 197 to 224); it returns nothing to its caller.\<close>

fun configureLinks ::
  "'w extern \<Rightarrow> kurmaNetworkInterface list \<Rightarrow> string list \<Rightarrow> 'w \<Rightarrow> 'w \<times> event list" where
  "configureLinks x ifaces [] w = (w, [])"
| "configureLinks x ifaces (linkName # links) w =
     (case findNetconf (regexp_MatchString x) linkName ifaces of
        None \<Rightarrow>
          (case configureLinks x ifaces links w of
             (w', evs) \<Rightarrow>
               (w', Log LInfo ''Configuring %s...'' [S linkName]
                    # Log LWarn ''- no matching network configuraton found'' [] # evs))
      | Some netconf \<Rightarrow>
          (case configureInterface x linkName netconf w of
             (Some err, w1) \<Rightarrow>
               (case configureLinks x ifaces links w1 of
                  (w', evs) \<Rightarrow>
                    (w', Log LInfo ''Configuring %s...'' [S linkName]
                         # ConfigureInterface linkName netconf (Some err)
                         # Log LWarn ''- %s'' [E err] # evs))
           | (None, w1) \<Rightarrow>
               (case configureLinks x ifaces links w1 of
                  (w', evs) \<Rightarrow>
                    (w', Log LInfo ''Configuring %s...'' [S linkName]
                         # ConfigureInterface linkName netconf None # evs))))"

text \<open>
  The gateway (lines 226 to 242). The first component of the result says whether the
  block returned from \<^verbatim>\<open>configureNetwork\<close> (with \<^verbatim>\<open>nil\<close>).
  \<^verbatim>\<open>
  if r.config.NetworkConfig.Gateway != "" {
      gateway := net.ParseIP(r.config.NetworkConfig.Gateway)
      if gateway == nil {
          r.log.Warnf("Failed to configure gatway to %q", r.config.NetworkConfig.Gateway)
      }
      route := &netlink.Route{
          Scope: netlink.SCOPE_UNIVERSE,
          Gw:    gateway,
      }
      if err := netlink.RouteAdd(route); err != nil {
          r.log.Warnf("Failed to configure gateway: %v", err)
          return nil
      }
      r.log.Infof("Configured gatway to %s", r.config.NetworkConfig.Gateway)
  }
  \<close>
\<close>

definition configureGateway ::
  "'w extern \<Rightarrow> string \<Rightarrow> 'w \<Rightarrow> bool \<times> 'w \<times> event list" where
  "configureGateway x gw w =
     (if gw \<noteq> [] then
        (let gateway = net_ParseIP x gw;
             warn = (if gateway = None
                     then [Log LWarn ''Failed to configure gatway to %q'' [S gw]] else []);
             route = \<lparr>Scope = SCOPE_UNIVERSE, Gw = gateway\<rparr>
         in
         case netlink_RouteAdd x route w of
           (Some err, w') \<Rightarrow>
             (True, w',
              warn @ [RouteAdd route (Some err),
                      Log LWarn ''Failed to configure gateway: %v'' [E err]])
         | (None, w') \<Rightarrow>
             (False, w',
              warn @ [RouteAdd route None, Log LInfo ''Configured gatway to %s'' [S gw]]))
      else (False, w, []))"

text \<open>
  The resolver file (lines 244 to 260): one \<^verbatim>\<open>Fprintf\<close> of \<^verbatim>\<open>"nameserver %s\n"\<close> for each
  server, which for a string argument writes the three parts one after the other.
\<close>

definition resolvConf :: string where
  "resolvConf = ''/etc/resolv.conf''"

definition nameserverLine :: "string \<Rightarrow> string" where
  "nameserverLine ns = ''nameserver '' @ ns @ [CHR 0x0A]"

fun writeNameservers ::
  "'w extern \<Rightarrow> string list \<Rightarrow> 'w \<Rightarrow> error option \<times> 'w \<times> event list" where
  "writeNameservers x [] w = (None, w, [])"
| "writeNameservers x (ns # rest) w =
     (case f_WriteString x resolvConf (nameserverLine ns) w of
        (Some err, w') \<Rightarrow>
          (Some err, w', [WriteString resolvConf (nameserverLine ns) (Some err)])
      | (None, w') \<Rightarrow>
          (case writeNameservers x rest w' of
             (r, w'', evs) \<Rightarrow>
               (r, w'', WriteString resolvConf (nameserverLine ns) None # evs)))"

definition configureDNS ::
  "'w extern \<Rightarrow> string list \<Rightarrow> 'w \<Rightarrow> error option \<times> 'w \<times> event list" where
  "configureDNS x dns w =
     (if length dns > 0 then
        (case os_RemoveAll x resolvConf w of
           (Some err, w1) \<Rightarrow> (Some err, w1, [RemoveAll resolvConf (Some err)])
         | (None, w1) \<Rightarrow>
             (case os_OpenFile x resolvConf w1 of
                (Some err, w2) \<Rightarrow>
                  (Some err, w2, [RemoveAll resolvConf None, OpenFile resolvConf (Some err)])
              | (None, w2) \<Rightarrow>
                  (case writeNameservers x dns w2 of
                     (r, w3, evs) \<Rightarrow>
                       (r, f_Close x resolvConf w3,
                        RemoveAll resolvConf None # OpenFile resolvConf None
                        # evs @ [Close resolvConf]))))
      else (None, w, []))"

text \<open>\<^verbatim>\<open>configureNetwork\<close> (lines 186 to 263); \<^verbatim>\<open>r.config.NetworkConfig\<close> is a pointer.\<close>

definition configureNetwork ::
  "'w extern \<Rightarrow> kurmaNetworkConfig option \<Rightarrow> 'w \<Rightarrow> error option \<times> 'w \<times> event list" where
  "configureNetwork x NetworkConfig w =
     (case NetworkConfig of
        None \<Rightarrow> (None, w, [Log LWarn ''No network configuration given, skipping'' []])
      | Some nc \<Rightarrow>
          (case netlink_LinkList x w of
             (Inl err, w1) \<Rightarrow> (Some err, w1, [LinkList (Some err)])
           | (Inr links, w1) \<Rightarrow>
               (case configureLinks x (Interfaces nc) links w1 of
                  (w2, evs1) \<Rightarrow>
                    (case configureGateway x (Gateway nc) w2 of
                       (True, w3, evs2) \<Rightarrow> (None, w3, LinkList None # evs1 @ evs2)
                     | (False, w3, evs2) \<Rightarrow>
                         (case configureDNS x (DNS nc) w3 of
                            (r, w4, evs3) \<Rightarrow>
                              (r, w4, LinkList None # evs1 @ evs2 @ evs3))))))"

section \<open>Initial containers\<close>

text \<open>
  The function literal run for each image (lines 327 to 351). Once the image was
  retrieved, the \<^verbatim>\<open>defer f.Close()\<close> runs on every way out.
\<close>

definition startOne :: "'w extern \<Rightarrow> string \<Rightarrow> 'w \<Rightarrow> 'w \<times> event list" where
  "startOne x img w =
     (case remote_RetrieveImage x img w of
        (Inl err, w1) \<Rightarrow>
          (w1, [RetrieveImage img (Some err),
                Log LError ''Failed to retrieve image %q: %v'' [S img, E err]])
      | (Inr f, w1) \<Rightarrow>
          (case init_findManifest x f w1 of
             (Inl err, w2) \<Rightarrow>
               (f_Close x f w2,
                [RetrieveImage img None, FindManifest f (Some err),
                 Log LError ''Failed to find manifest in image %q: %v'' [S img, E err],
                 Close f])
           | (Inr manifest, w2) \<Rightarrow>
               (case f_Seek x f w2 of
                  (Some err, w3) \<Rightarrow>
                    (f_Close x f w3,
                     [RetrieveImage img None, FindManifest f None, Seek f (Some err),
                      Log LError ''Failed to set up %q: %v'' [S img, E err],
                      Close f])
                | (None, w3) \<Rightarrow>
                    (case manager_Create x [] manifest f w3 of
                       (Some err, w4) \<Rightarrow>
                         (f_Close x f w4,
                          [RetrieveImage img None, FindManifest f None, Seek f None,
                           ManagerCreate [] manifest f (Some err),
                           Log LError ''Failed to start up %q: %v'' [S img, E err],
                           Close f])
                     | (None, w4) \<Rightarrow>
                         (f_Close x f w4,
                          [RetrieveImage img None, FindManifest f None, Seek f None,
                           ManagerCreate [] manifest f None,
                           Log LInfo ''Launched container %s'' [S manifest],
                           Close f])))))"

text \<open>
  \<^verbatim>\<open>
  func (r *runner) startInitContainers() error {
      for _, img := range r.config.InitContainers {
          func() { ... }()
      }
      return nil
  }
  \<close>
\<close>

fun startInitContainers ::
  "'w extern \<Rightarrow> string list \<Rightarrow> 'w \<Rightarrow> error option \<times> 'w \<times> event list" where
  "startInitContainers x [] w = (None, w, [])"
| "startInitContainers x (img # rest) w =
     (case startOne x img w of
        (w1, evs) \<Rightarrow>
          (case startInitContainers x rest w1 of
             (r, w2, evs') \<Rightarrow> (r, w2, evs @ evs')))"

text \<open>
  What a trace says about the images: the references \<^verbatim>\<open>remote.RetrieveImage\<close> was called
  with, the stages that failed, and the lines logged at the error level.
\<close>

fun retrieved :: "event list \<Rightarrow> string list" where
  "retrieved [] = []"
| "retrieved (RetrieveImage img r # evs) = img # retrieved evs"
| "retrieved (_ # evs) = retrieved evs"

fun stageFailed :: "event \<Rightarrow> bool" where
  "stageFailed (RetrieveImage img (Some err)) = True"
| "stageFailed (FindManifest f (Some err)) = True"
| "stageFailed (Seek f (Some err)) = True"
| "stageFailed (ManagerCreate name manifest f (Some err)) = True"
| "stageFailed _ = False"

fun errorLogged :: "event \<Rightarrow> bool" where
  "errorLogged (Log LError fmt args) = True"
| "errorLogged _ = False"

section \<open>The client: manifest extraction\<close>

text \<open>
  \<^verbatim>\<open>findManifest\<close> of \<^verbatim>\<open>cmd_create.go\<close> reads its argument through
  \<^verbatim>\<open>tarhelper.DetectArchiveCompression\<close> and then through the archive reader it returns.
  The input of the model is what these return: the error of the detection, or the
  sequence of results of \<^verbatim>\<open>arch.Next()\<close> up to \<^verbatim>\<open>io.EOF\<close> (the end of the list). A
  result of \<^verbatim>\<open>Next\<close> is a header, given by its \<^verbatim>\<open>Name\<close> and by what
  \<^verbatim>\<open>ioutil.ReadAll(arch)\<close> returns for this entry, or an error other than \<^verbatim>\<open>io.EOF\<close>.
  \<^verbatim>\<open>filepath.Clean\<close> is the parameter \<open>Clean\<close>.
  \<^verbatim>\<open>
  for {
      header, err := arch.Next()
      if err == io.EOF {
          return nil, fmt.Errorf("failed to locate manifest file")
      }
      if err != nil {
          return nil, err
      }
      if filepath.Clean(header.Name) != "manifest" {
          continue
      }
      b, err := ioutil.ReadAll(arch)
      if err != nil {
          return nil, err
      }
      return b, nil
  }
  \<close>
\<close>

datatype tar_next =
    Header string "error + string"
  | NextError error

fun scanManifest :: "(string \<Rightarrow> string) \<Rightarrow> tar_next list \<Rightarrow> error + string" where
  "scanManifest Clean [] = Inl (Errorf ''failed to locate manifest file'' [])"
| "scanManifest Clean (NextError err # rest) = Inl err"
| "scanManifest Clean (Header name body # rest) =
     (if Clean name \<noteq> ''manifest'' then scanManifest Clean rest
      else (case body of Inl err \<Rightarrow> Inl err | Inr b \<Rightarrow> Inr b))"

definition findManifest ::
  "(string \<Rightarrow> string) \<Rightarrow> error + tar_next list \<Rightarrow> error + string" where
  "findManifest Clean r =
     (case r of Inl err \<Rightarrow> Inl err | Inr arch \<Rightarrow> scanManifest Clean arch)"

text \<open>The entries that \<^verbatim>\<open>findManifest\<close> passes over: headers with another cleaned name.\<close>

fun otherEntry :: "(string \<Rightarrow> string) \<Rightarrow> tar_next \<Rightarrow> bool" where
  "otherEntry Clean (Header name body) = (Clean name \<noteq> ''manifest'')"
| "otherEntry Clean (NextError err) = False"

section \<open>The client: streaming upload\<close>

text \<open>
  The collaborators of the upload: the call that opens the stream, the send of one
  message (upload identifier, bytes) and \<^verbatim>\<open>CloseAndRecv\<close>.
\<close>

datatype cevent =
    UploadImage "error option"
  | Send string string "error option"
  | CloseAndRecv "error option"

record 'w client =
  client_UploadImage :: "'w \<Rightarrow> error option \<times> 'w"
  stream_Send :: "string \<Rightarrow> string \<Rightarrow> 'w \<Rightarrow> error option \<times> 'w"
  stream_CloseAndRecv :: "'w \<Rightarrow> error option \<times> 'w"

text \<open>
  Modelled from the spec: \<^verbatim>\<open>pb.NewByteStreamWriter\<close> (package \<^verbatim>\<open>stage1/client\<close>) and the
  copy loop behind \<^verbatim>\<open>io.Copy\<close> are not among the sources. Section 4.6 of the
  specification has the content of the reader copied into the sink in chunks of a
  uniform size, each chunk sent with the upload identifier attached. So the content is
  cut into pieces of \<open>C\<close> bytes, the last one possibly shorter, and every piece is one
  message of the stream; the first send that fails ends the copy with its error.
\<close>

function chunks :: "nat \<Rightarrow> 'a list \<Rightarrow> 'a list list" where
  "chunks C bs = (if C = 0 \<or> bs = [] then [] else take C bs # chunks C (drop C bs))"
  by pat_completeness auto
termination
  by (relation "measure (\<lambda>(C, bs). length bs)") auto

declare chunks.simps [simp del]

fun copyChunks ::
  "'w client \<Rightarrow> string \<Rightarrow> string list \<Rightarrow> 'w \<Rightarrow> error option \<times> 'w \<times> cevent list" where
  "copyChunks c uploadId [] w = (None, w, [])"
| "copyChunks c uploadId (b # bs) w =
     (case stream_Send c uploadId b w of
        (Some err, w') \<Rightarrow> (Some err, w', [Send uploadId b (Some err)])
      | (None, w') \<Rightarrow>
          (case copyChunks c uploadId bs w' of
             (r, w'', evs) \<Rightarrow> (r, w'', Send uploadId b None # evs)))"

text \<open>
  The end of \<^verbatim>\<open>create\<close> (lines 59 to 73), for a file whose content from offset zero is
  \<open>content\<close> and the identifier \<^verbatim>\<open>resp.ImageUploadId\<close>:
  \<^verbatim>\<open>
  stream, err := cmd.Client.UploadImage(context.Background())
  if err != nil {
      return err
  }
  w := pb.NewByteStreamWriter(stream, resp.ImageUploadId)
  if _, err := io.Copy(w, f); err != nil {
      return fmt.Errorf("write error: %v", err)
  }
  if _, err := stream.CloseAndRecv(); err != nil {
      return err
  }
  return nil
  \<close>
\<close>

definition upload ::
  "'w client \<Rightarrow> nat \<Rightarrow> string \<Rightarrow> string \<Rightarrow> 'w \<Rightarrow> error option \<times> 'w \<times> cevent list" where
  "upload c C ImageUploadId content w =
     (case client_UploadImage c w of
        (Some err, w1) \<Rightarrow> (Some err, w1, [UploadImage (Some err)])
      | (None, w1) \<Rightarrow>
          (case copyChunks c ImageUploadId (chunks C content) w1 of
             (Some err, w2, evs) \<Rightarrow>
               (Some (Errorf ''write error: %v'' [E err]), w2, UploadImage None # evs)
           | (None, w2, evs) \<Rightarrow>
               (case stream_CloseAndRecv c w2 of
                  (r, w3) \<Rightarrow> (r, w3, UploadImage None # evs @ [CloseAndRecv r]))))"

text \<open>What a trace of the upload says: the messages sent, and the acknowledgments awaited.\<close>

fun sent :: "cevent list \<Rightarrow> (string \<times> string \<times> error option) list" where
  "sent [] = []"
| "sent (Send uploadId b r # evs) = (uploadId, b, r) # sent evs"
| "sent (_ # evs) = sent evs"

fun acks :: "cevent list \<Rightarrow> error option list" where
  "acks [] = []"
| "acks (CloseAndRecv r # evs) = r # acks evs"
| "acks (_ # evs) = acks evs"

section \<open>A small world to run the steps in\<close>

text \<open>
  The properties below hold for every world and all collaborators. To run the steps on
  concrete inputs, this section gives one world: library functions written out for the
  inputs they are used on, and collaborators that fail on the names listed in
  \<open>failing\<close> and succeed otherwise. The world is the journal of the changes made.

  \<^verbatim>\<open>filepath.Clean\<close> on slash-separated paths: empty and \<^verbatim>\<open>.\<close> elements are dropped, a
  \<^verbatim>\<open>..\<close> removes the element before it (at the root it is dropped, at the start of a
  relative path it stays), and the empty result is \<^verbatim>\<open>.\<close>.
\<close>

fun splitSlash :: "string \<Rightarrow> string list" where
  "splitSlash [] = [[]]"
| "splitSlash (c # cs) =
     (if c = CHR ''/'' then [] # splitSlash cs
      else (case splitSlash cs of [] \<Rightarrow> [[c]] | e # es \<Rightarrow> (c # e) # es))"

fun joinSlash :: "string list \<Rightarrow> string" where
  "joinSlash [] = []"
| "joinSlash [e] = e"
| "joinSlash (e # es) = e @ CHR ''/'' # joinSlash es"

fun cleanElems :: "bool \<Rightarrow> string list \<Rightarrow> string list \<Rightarrow> string list" where
  "cleanElems rooted out [] = rev out"
| "cleanElems rooted out (e # es) =
     (if e = [] \<or> e = ''.'' then cleanElems rooted out es
      else if e = ''..'' then
        (case out of
           [] \<Rightarrow> if rooted then cleanElems rooted [] es else cleanElems rooted [e] es
         | t # ts \<Rightarrow>
             if t = ''..'' then cleanElems rooted (e # out) es else cleanElems rooted ts es)
      else cleanElems rooted (e # out) es)"

definition filepath_Clean :: "string \<Rightarrow> string" where
  "filepath_Clean path =
     (if path = [] then ''.''
      else
        (let rooted = (hd path = CHR ''/'');
             body = joinSlash (cleanElems rooted [] (splitSlash path))
         in if rooted then CHR ''/'' # body else if body = [] then ''.'' else body))"

text \<open>\<^verbatim>\<open>filepath.Join\<close> of two elements: empty elements are ignored, the rest is cleaned.\<close>

definition filepath_Join2 :: "string \<Rightarrow> string \<Rightarrow> string" where
  "filepath_Join2 a b =
     (if a = [] then (if b = [] then [] else filepath_Clean b)
      else filepath_Clean (a @ CHR ''/'' # b))"

text \<open>
  \<^verbatim>\<open>regexp.MatchString\<close> for a pattern without metacharacters: the pattern matches when
  it occurs somewhere in the string, since a pattern is not anchored.
\<close>

fun hasPrefix :: "string \<Rightarrow> string \<Rightarrow> bool" where
  "hasPrefix [] s = True"
| "hasPrefix (p # ps) [] = False"
| "hasPrefix (p # ps) (c # cs) = (p = c \<and> hasPrefix ps cs)"

fun occursIn :: "string \<Rightarrow> string \<Rightarrow> bool" where
  "occursIn p [] = (p = [])"
| "occursIn p (c # cs) = (hasPrefix p (c # cs) \<or> occursIn p cs)"

definition literalMatchString :: "string \<Rightarrow> string \<Rightarrow> bool \<times> error option" where
  "literalMatchString pattern s = (occursIn pattern s, None)"

text \<open>
  \<^verbatim>\<open>net.ParseIP\<close> for the dotted form of an IPv4 address: four decimal numbers of at
  most three digits, none above 255. Anything else is the nil address here.
\<close>

definition octet :: "string \<Rightarrow> bool" where
  "octet s =
     (s \<noteq> [] \<and> length s \<le> 3 \<and> list_all (\<lambda>c. c \<in> set ''0123456789'') s
      \<and> foldl (\<lambda>n c. 10 * n + (of_char c - 48)) (0 :: nat) s \<le> 255)"

fun splitDot :: "string \<Rightarrow> string list" where
  "splitDot [] = [[]]"
| "splitDot (c # cs) =
     (if c = CHR ''.'' then [] # splitDot cs
      else (case splitDot cs of [] \<Rightarrow> [[c]] | e # es \<Rightarrow> (c # e) # es))"

definition parseIPv4 :: "string \<Rightarrow> string option" where
  "parseIPv4 s =
     (if length (splitDot s) = 4 \<and> list_all octet (splitDot s) then Some s else None)"

text \<open>
  The collaborators. A mount fails when its location is listed, a file operation when
  its path is, a link when its name is, an image when its reference is; the words
  \<^verbatim>\<open>write\<close>, \<^verbatim>\<open>sethostname\<close>, \<^verbatim>\<open>route\<close>, \<^verbatim>\<open>manifest\<close>, \<^verbatim>\<open>seek\<close> and \<^verbatim>\<open>create\<close> make the
  operation of that name fail. The mount table does not exist, and the links are
  \<^verbatim>\<open>lo\<close> and \<^verbatim>\<open>eth0\<close>.
\<close>

definition failure :: "string list \<Rightarrow> string \<Rightarrow> string \<Rightarrow> string list \<Rightarrow> error option \<times> string list" where
  "failure failing name change w =
     (if name \<in> set failing then (Some (External (name @ '': failed'')), w)
      else (None, w @ [change]))"

definition sim :: "string list \<Rightarrow> string list extern" where
  "sim failing =
     \<lparr> handleMount = (\<lambda>source location fstype opts. failure failing location (''mount '' @ location)),
       os_OpenFile = (\<lambda>path. failure failing path (''open '' @ path)),
       f_WriteString = (\<lambda>path s. failure failing ''write'' (''write '' @ path @ '' '' @ s)),
       f_Close = (\<lambda>path w. w @ [''close '' @ path]),
       syscall_Sethostname = (\<lambda>name. failure failing ''sethostname'' (''hostname '' @ name)),
       os_Lstat = (\<lambda>path w. (Some (NotExist path), w)),
       proc_MountPoints = (\<lambda>w. (Inr Map.empty, w)),
       filepath_Join = filepath_Join2,
       netlink_LinkList = (\<lambda>w. (Inr [''lo'', ''eth0''], w)),
       regexp_MatchString = literalMatchString,
       configureInterface = (\<lambda>link n. failure failing link (''configure '' @ link @ '' '' @ Settings n)),
       net_ParseIP = parseIPv4,
       netlink_RouteAdd =
         (\<lambda>route. failure failing ''route''
            (''route '' @ (case Gw route of None \<Rightarrow> ''nil'' | Some ip \<Rightarrow> ip))),
       os_RemoveAll = (\<lambda>path. failure failing path (''remove '' @ path)),
       remote_RetrieveImage =
         (\<lambda>img w. if img \<in> set failing then (Inl (External (img @ '': failed'')), w)
                  else (Inr img, w @ [''retrieve '' @ img])),
       init_findManifest =
         (\<lambda>f w. if ''manifest'' \<in> set failing \<or> (''manifest '' @ f) \<in> set failing
                then (Inl (External ''failed to locate manifest file''), w)
                else (Inr (''manifest of '' @ f), w)),
       f_Seek = (\<lambda>f. failure failing ''seek'' (''seek '' @ f)),
       manager_Create = (\<lambda>name manifest f. failure failing ''create'' (''create '' @ manifest)) \<rparr>"

text \<open>The stream of the client: a send fails when its bytes are listed.\<close>

definition simClient :: "string list \<Rightarrow> string list client" where
  "simClient failing =
     \<lparr> client_UploadImage = failure failing ''UploadImage'' ''stream'',
       stream_Send = (\<lambda>uploadId b. failure failing b (uploadId @ '':'' @ b)),
       stream_CloseAndRecv = failure failing ''CloseAndRecv'' ''closed'' \<rparr>"

section \<open>Properties of the system mounts\<close>

lemma mountTargets_take:
  "\<exists>k. mountTargets (snd (snd (mountEach x existingMounts ms w)))
        = take k (map fst (notMounted existingMounts ms))"
proof (induction ms arbitrary: w)
  case Nil
  show ?case by (simp add: notMounted_def)
next
  case (Cons m ms)
  obtain location source fstype where m: "m = (location, source, fstype)"
    by (cases m) auto
  show ?case
  proof (cases "existingMounts location \<noteq> None")
    case True
    then show ?thesis
      using Cons.IH [of w] unfolding m
      by (auto simp: notMounted_def split: prod.splits)
  next
    case False
    obtain r w' where hm: "handleMount x source location fstype [] w = (r, w')"
      by (cases "handleMount x source location fstype [] w") auto
    show ?thesis
    proof (cases r)
      case None
      obtain k where k: "mountTargets (snd (snd (mountEach x existingMounts ms w')))
        = take k (map fst (notMounted existingMounts ms))"
        using Cons.IH [of w'] by blast
      have "mountTargets (snd (snd (mountEach x existingMounts (m # ms) w)))
          = take (Suc k) (map fst (notMounted existingMounts (m # ms)))"
        using False hm None k unfolding m
        by (auto simp: notMounted_def split: prod.splits)
      then show ?thesis by blast
    next
      case (Some err)
      have "mountTargets (snd (snd (mountEach x existingMounts (m # ms) w)))
          = take (Suc 0) (map fst (notMounted existingMounts (m # ms)))"
        using False hm Some unfolding m
        by (simp add: notMounted_def)
      then show ?thesis by blast
    qed
  qed
qed

lemma mountEach_all_present:
  "\<forall>m\<in>set ms. existingMounts (fst m) \<noteq> None \<Longrightarrow>
   mountEach x existingMounts ms w =
     (None, w, map (\<lambda>m. Log LTrace ''- skipping %q, already mounted'' [S (fst m)]) ms)"
  by (induction ms) auto

lemma notMounted_targets_free:
  "loc \<in> set (map fst (notMounted existingMounts ms)) \<Longrightarrow> existingMounts loc = None"
  by (auto simp: notMounted_def)

lemma distinct_systemMounts:
  "cg \<notin> set [''/dev'', ''/dev/pts'', ''/proc'', ''/sys'', ''/tmp'', ''/var/kurma'']
   \<Longrightarrow> distinct (map fst (systemMounts cg))"
  by (auto simp: systemMounts_def)

lemma mountEach_distinct:
  assumes "distinct (map fst ms)"
  shows "distinct (mountTargets (snd (snd (mountEach x existingMounts ms w))))"
proof -
  obtain k where "mountTargets (snd (snd (mountEach x existingMounts ms w)))
        = take k (map fst (notMounted existingMounts ms))"
    using mountTargets_take [of x existingMounts ms w] by blast
  then show ?thesis
    using assms by (simp add: notMounted_def distinct_map_filter)
qed

lemma mountEach_not_existing:
  assumes "loc \<in> set (mountTargets (snd (snd (mountEach x existingMounts ms w))))"
  shows "existingMounts loc = None"
proof -
  obtain k where "mountTargets (snd (snd (mountEach x existingMounts ms w)))
        = take k (map fst (notMounted existingMounts ms))"
    using mountTargets_take [of x existingMounts ms w] by blast
  then have "loc \<in> set (map fst (notMounted existingMounts ms))"
    using assms by (auto dest: in_set_takeD)
  then show ?thesis by (rule notMounted_targets_free)
qed

lemma createSystemMounts_distinct:
  assumes "distinct (map fst (systemMounts cg))"
  shows "distinct (mountTargets (snd (snd (createSystemMounts x cg w))))"
proof -
  have a: "distinct (mountTargets (snd (snd (mountEach x e (systemMounts cg) w1))))"
    for e :: "string \<rightharpoonup> string" and w1
    using assms by (rule mountEach_distinct)
  obtain r w1 where l: "os_Lstat x MountProcFile w = (r, w1)"
    by (cases "os_Lstat x MountProcFile w") auto
  show ?thesis
  proof (cases r)
    case None
    obtain p w2 where mp: "proc_MountPoints x w1 = (p, w2)"
      by (cases "proc_MountPoints x w1") auto
    show ?thesis
    proof (cases p)
      case (Inl err)
      then show ?thesis using l None mp
        by (simp add: createSystemMounts_def Let_def)
    next
      case (Inr e)
      then show ?thesis using l None mp a [of e w2]
        by (auto simp: createSystemMounts_def Let_def split: prod.splits)
    qed
  next
    case (Some err)
    then show ?thesis using l a [of Map.empty w1]
      by (auto simp: createSystemMounts_def Let_def split: prod.splits)
  qed
qed

text \<open>
  Claim C4. For every list of mounts, every snapshot of the existing mounts and all
  collaborators, the calls of \<^verbatim>\<open>handleMount\<close> are made for the mounts that are not in the
  snapshot, in the order of the list, each with (source, location, fstype) and no
  options. When the loop returns \<^verbatim>\<open>nil\<close>, every one of them was called and succeeded.
  When it returns an error, the calls are the first \<open>k\<close> of them, which succeeded,
  followed by the one that failed; that failing call is the last thing the loop did,
  and the error is \<^verbatim>\<open>failed to mount %q: %v\<close> with the location of the failing mount
  and the error of the call.
\<close>

theorem mountEach_in_order:
  "case mountEach x existingMounts ms w of
     (None, w', evs) \<Rightarrow>
        mountCalls evs = map (mountCall None) (notMounted existingMounts ms)
   | (Some e, w', evs) \<Rightarrow>
        (\<exists>k err. k < length (notMounted existingMounts ms)
           \<and> mountCalls evs =
               map (mountCall None) (take k (notMounted existingMounts ms))
               @ [mountCall (Some err) (notMounted existingMounts ms ! k)]
           \<and> evs \<noteq> []
           \<and> last evs = mountCall (Some err) (notMounted existingMounts ms ! k)
           \<and> e = Errorf ''failed to mount %q: %v''
                   [S (fst (notMounted existingMounts ms ! k)), E err])"
proof (induction ms arbitrary: w)
  case Nil
  show ?case by (simp add: notMounted_def)
next
  case (Cons m ms)
  obtain location source fstype where m: "m = (location, source, fstype)"
    by (cases m) auto
  show ?case
  proof (cases "existingMounts location \<noteq> None")
    case True
    then show ?thesis
      using Cons.IH [of w] unfolding m
      by (auto simp: notMounted_def split: prod.splits option.splits)
  next
    case False
    have nm: "notMounted existingMounts (m # ms) = m # notMounted existingMounts ms"
      using False by (simp add: notMounted_def m)
    obtain r w' where hm: "handleMount x source location fstype [] w = (r, w')"
      by (cases "handleMount x source location fstype [] w") auto
    show ?thesis
    proof (cases r)
      case None
      obtain r2 w2 evs2 where rest: "mountEach x existingMounts ms w' = (r2, w2, evs2)"
        by (cases "mountEach x existingMounts ms w'") auto
      show ?thesis
      proof (cases r2)
        case None2: None
        then show ?thesis
          using Cons.IH [of w'] False hm None rest unfolding m
          by (simp add: notMounted_def mountCall_def)
      next
        case (Some e)
        then obtain k err where
          k: "k < length (notMounted existingMounts ms)"
          and calls: "mountCalls evs2 =
             map (mountCall None) (take k (notMounted existingMounts ms))
             @ [mountCall (Some err) (notMounted existingMounts ms ! k)]"
          and ne: "evs2 \<noteq> []"
          and lst: "last evs2 = mountCall (Some err) (notMounted existingMounts ms ! k)"
          and e: "e = Errorf ''failed to mount %q: %v''
                 [S (fst (notMounted existingMounts ms ! k)), E err]"
          using Cons.IH [of w'] rest by auto
        let ?evs = "Log LTrace ''- mounting %q (type %q) to %q''
                      [S source, S fstype, S location]
                    # Mount source location fstype [] None # evs2"
        have res: "mountEach x existingMounts (m # ms) w = (Some e, w2, ?evs)"
          using False hm None rest Some unfolding m by simp
        have "Suc k < length (notMounted existingMounts (m # ms))"
          using k nm by simp
        moreover have "mountCalls ?evs =
             map (mountCall None) (take (Suc k) (notMounted existingMounts (m # ms)))
             @ [mountCall (Some err) (notMounted existingMounts (m # ms) ! Suc k)]"
          using calls nm by (simp add: mountCall_def m)
        moreover have "?evs \<noteq> []" by simp
        moreover have "last ?evs = mountCall (Some err) (notMounted existingMounts (m # ms) ! Suc k)"
          using lst ne nm by simp
        moreover have "e = Errorf ''failed to mount %q: %v''
                 [S (fst (notMounted existingMounts (m # ms) ! Suc k)), E err]"
          using e nm by simp
        ultimately show ?thesis
          unfolding res by (simp del: mountCalls.simps last.simps) blast
      qed
    next
      case (Some err)
      show ?thesis
        using False hm Some nm unfolding m
        by (auto simp: mountCall_def intro!: exI [of _ 0])
    qed
  qed
qed

text \<open>
  The system list with \<^verbatim>\<open>/dev\<close> already mounted and a mount of \<^verbatim>\<open>/proc\<close> that fails:
  \<^verbatim>\<open>/dev\<close> is skipped, \<^verbatim>\<open>/dev/pts\<close> is mounted, \<^verbatim>\<open>/proc\<close> fails, and nothing after it is
  tried.
\<close>

theorem mountEach_in_order_witness:
  "fst (mountEach (sim [''/proc'']) [''/dev'' \<mapsto> ''devtmpfs'']
         (systemMounts ''/sys/fs/cgroup'') [])
     = Some (Errorf ''failed to mount %q: %v'' [S ''/proc'', E (External ''/proc: failed'')])
   \<and> mountCalls (snd (snd (mountEach (sim [''/proc'']) [''/dev'' \<mapsto> ''devtmpfs'']
         (systemMounts ''/sys/fs/cgroup'') [])))
     = [Mount ''none'' ''/dev/pts'' ''devpts'' [] None,
        Mount ''none'' ''/proc'' ''proc'' [] (Some (External ''/proc: failed''))]"
  using mountEach_in_order [where x = "sim [''/proc'']"
      and existingMounts = "[''/dev'' \<mapsto> ''devtmpfs'']"
      and ms = "systemMounts ''/sys/fs/cgroup''" and w = "[]"]
  by (simp add: sim_def failure_def systemMounts_def)

text \<open>
  Claim C5. No call of \<^verbatim>\<open>handleMount\<close> is made for a location that is in the snapshot of
  the existing mounts. When every location of the list is in the snapshot, the loop
  returns \<^verbatim>\<open>nil\<close>, leaves the world as it was and only logs one skip for each mount.
  When the locations of the list are distinct, no location is mounted twice; this is
  so for the list of \<^verbatim>\<open>createSystemMounts\<close>, as long as \<^verbatim>\<open>cgroupsMount\<close> is not one of the
  six other locations.
\<close>

theorem existing_mounts_skipped:
  "(\<forall>loc \<in> set (mountTargets (snd (snd (mountEach x existingMounts ms w)))).
       existingMounts loc = None)
   \<and> ((\<forall>m \<in> set ms. existingMounts (fst m) \<noteq> None) \<longrightarrow>
        mountEach x existingMounts ms w =
          (None, w, map (\<lambda>m. Log LTrace ''- skipping %q, already mounted'' [S (fst m)]) ms))
   \<and> (distinct (map fst ms) \<longrightarrow>
        distinct (mountTargets (snd (snd (mountEach x existingMounts ms w)))))
   \<and> (cgroupsMount \<notin> set [''/dev'', ''/dev/pts'', ''/proc'', ''/sys'', ''/tmp'', ''/var/kurma'']
        \<longrightarrow> distinct (mountTargets (snd (snd (createSystemMounts x cgroupsMount w)))))"
  using mountEach_not_existing [of _ x existingMounts ms w]
    mountEach_all_present [of ms existingMounts x w]
    mountEach_distinct [of ms x existingMounts w]
    createSystemMounts_distinct [OF distinct_systemMounts, of cgroupsMount x w]
  by blast

theorem existing_mounts_skipped_witness:
  "mountEach (sim [''/dev'']) [''/dev'' \<mapsto> ''devtmpfs'']
      [(''/dev'', ''devtmpfs'', ''devtmpfs'')] []
     = (None, [], [Log LTrace ''- skipping %q, already mounted'' [S ''/dev'']])
   \<and> distinct (mountTargets (snd (snd (createSystemMounts (sim []) ''/sys/fs/cgroup'' []))))"
  using existing_mounts_skipped [of "sim [''/dev'']" "[''/dev'' \<mapsto> ''devtmpfs'']"
      "[(''/dev'', ''devtmpfs'', ''devtmpfs'')]" "[]" "''/sys/fs/cgroup''"]
    existing_mounts_skipped [of "sim []" "Map.empty :: string \<rightharpoonup> string" "[]" "[]"
      "''/sys/fs/cgroup''"]
  by simp

section \<open>Properties of the hostname step\<close>

text \<open>
  Claim C10. \<^verbatim>\<open>configureHostname\<close> returns \<^verbatim>\<open>nil\<close> for every hostname, world and
  collaborator. With the empty hostname it does nothing: no call, no log line, the
  world unchanged. When \<^verbatim>\<open>syscall.Sethostname\<close> fails, the failure is logged at the error
  level and the step still returns \<^verbatim>\<open>nil\<close>.
\<close>

theorem configureHostname_never_fails:
  "fst (configureHostname x Hostname w) = None
   \<and> configureHostname x [] w = (None, w, [])
   \<and> (\<forall>err w'. Hostname \<noteq> [] \<and> syscall_Sethostname x Hostname w = (Some err, w') \<longrightarrow>
         configureHostname x Hostname w =
           (None, w',
            [Log LInfo ''Setting hostname: %s'' [S Hostname],
             Sethostname Hostname (Some err),
             Log LError ''- Failed to set hostname: %v'' [E err]]))"
  by (auto simp: configureHostname_def split: prod.splits option.splits)

theorem configureHostname_never_fails_witness:
  "configureHostname (sim [''sethostname'']) ''host1'' [] =
     (None, [],
      [Log LInfo ''Setting hostname: %s'' [S ''host1''],
       Sethostname ''host1'' (Some (External ''sethostname: failed'')),
       Log LError ''- Failed to set hostname: %v'' [E (External ''sethostname: failed'')]])"
  using configureHostname_never_fails [of "sim [''sethostname'']" "''host1''" "[]"]
  by (simp add: sim_def failure_def)

section \<open>Properties of the cgroup step\<close>

lemma useHierarchy_cases:
  assumes "useHierarchy x location w = (r, w', evs)"
  shows "(\<exists>e. r = Some (Errorf ''Failed to configure memory hierarchy: %v'' [E e])
            \<and> evs = [OpenFile (filepath_Join x location ''memory.use_hierarchy'') (Some e)])
       \<or> (\<exists>e. r = Some (Errorf ''Failed to configure memory heirarchy: %v'' [E e])
            \<and> evs = [OpenFile (filepath_Join x location ''memory.use_hierarchy'') None,
                      WriteString (filepath_Join x location ''memory.use_hierarchy'')
                        [CHR ''1'', CHR 0x0A] (Some e),
                      Close (filepath_Join x location ''memory.use_hierarchy'')])
       \<or> (r = None
            \<and> evs = [OpenFile (filepath_Join x location ''memory.use_hierarchy'') None,
                      WriteString (filepath_Join x location ''memory.use_hierarchy'')
                        [CHR ''1'', CHR 0x0A] None,
                      Close (filepath_Join x location ''memory.use_hierarchy'')])"
  using assms
  by (auto simp: useHierarchy_def Let_def split: prod.splits option.splits)

lemma mountCgroupTypes_open_fails:
  "mountCgroupTypes x cg ts w = (r, w', evs) \<Longrightarrow> OpenFile p (Some e) \<in> set evs \<Longrightarrow>
   r = Some (Errorf ''Failed to configure memory hierarchy: %v'' [E e])"
proof (induction ts arbitrary: w r w' evs)
  case Nil
  then show ?case by simp
next
  case (Cons t ts)
  let ?loc = "filepath_Join x cg t"
  obtain hr w1 where hm: "handleMount x ''none'' ?loc ''cgroup'' t w = (hr, w1)"
    by (cases "handleMount x ''none'' ?loc ''cgroup'' t w") auto
  show ?case
  proof (cases hr)
    case (Some err)
    then show ?thesis using Cons.prems hm by (auto simp: Let_def)
  next
    case None
    show ?thesis
    proof (cases "t = ''memory''")
      case False
      obtain r2 w2 evs2 where rest: "mountCgroupTypes x cg ts w1 = (r2, w2, evs2)"
        by (cases "mountCgroupTypes x cg ts w1") auto
      then show ?thesis
        using Cons.prems hm None False Cons.IH [OF rest] by (auto simp: Let_def)
    next
      case True
      obtain ur w2 uevs where uh: "useHierarchy x ?loc w1 = (ur, w2, uevs)"
        by (cases "useHierarchy x ?loc w1") auto
      obtain r3 w3 evs3 where rest: "mountCgroupTypes x cg ts w2 = (r3, w3, evs3)"
        by (cases "mountCgroupTypes x cg ts w2") auto
      show ?thesis
        using Cons.prems hm None True uh rest Cons.IH [OF rest] useHierarchy_cases [OF uh]
        by (auto simp: Let_def split: option.splits)
    qed
  qed
qed


lemma mountCgroupTypes_write_fails:
  "mountCgroupTypes x cg ts w = (r, w', evs) \<Longrightarrow> WriteString p s (Some e) \<in> set evs \<Longrightarrow>
   r = Some (Errorf ''Failed to configure memory heirarchy: %v'' [E e])"
proof (induction ts arbitrary: w r w' evs)
  case Nil
  then show ?case by simp
next
  case (Cons t ts)
  let ?loc = "filepath_Join x cg t"
  obtain hr w1 where hm: "handleMount x ''none'' ?loc ''cgroup'' t w = (hr, w1)"
    by (cases "handleMount x ''none'' ?loc ''cgroup'' t w") auto
  show ?case
  proof (cases hr)
    case (Some err)
    then show ?thesis using Cons.prems hm by (auto simp: Let_def)
  next
    case None
    show ?thesis
    proof (cases "t = ''memory''")
      case False
      obtain r2 w2 evs2 where rest: "mountCgroupTypes x cg ts w1 = (r2, w2, evs2)"
        by (cases "mountCgroupTypes x cg ts w1") auto
      then show ?thesis
        using Cons.prems hm None False Cons.IH [OF rest] by (auto simp: Let_def)
    next
      case True
      obtain ur w2 uevs where uh: "useHierarchy x ?loc w1 = (ur, w2, uevs)"
        by (cases "useHierarchy x ?loc w1") auto
      obtain r3 w3 evs3 where rest: "mountCgroupTypes x cg ts w2 = (r3, w3, evs3)"
        by (cases "mountCgroupTypes x cg ts w2") auto
      show ?thesis
        using Cons.prems hm None True uh rest Cons.IH [OF rest] useHierarchy_cases [OF uh]
        by (auto simp: Let_def split: option.splits)
    qed
  qed
qed

lemma mountCgroupTypes_success:
  "mountCgroupTypes x cg ts w = (r, w', evs) \<Longrightarrow> r = None \<Longrightarrow> ''memory'' \<in> set ts \<Longrightarrow>
   Mount ''none'' (filepath_Join x cg ''memory'') ''cgroup'' ''memory'' None \<in> set evs
   \<and> OpenFile (filepath_Join x (filepath_Join x cg ''memory'') ''memory.use_hierarchy'') None
       \<in> set evs
   \<and> WriteString (filepath_Join x (filepath_Join x cg ''memory'') ''memory.use_hierarchy'')
         [CHR ''1'', CHR 0x0A] None \<in> set evs"
proof (induction ts arbitrary: w r w' evs)
  case Nil
  then show ?case by simp
next
  case (Cons t ts)
  let ?loc = "filepath_Join x cg t"
  obtain hr w1 where hm: "handleMount x ''none'' ?loc ''cgroup'' t w = (hr, w1)"
    by (cases "handleMount x ''none'' ?loc ''cgroup'' t w") auto
  show ?case
  proof (cases hr)
    case (Some err)
    then show ?thesis using Cons.prems hm by (auto simp: Let_def)
  next
    case None
    show ?thesis
    proof (cases "t = ''memory''")
      case False
      obtain r2 w2 evs2 where rest: "mountCgroupTypes x cg ts w1 = (r2, w2, evs2)"
        by (cases "mountCgroupTypes x cg ts w1") auto
      then show ?thesis
        using Cons.prems hm None False Cons.IH [OF rest] by (auto simp: Let_def)
    next
      case True
      obtain ur w2 uevs where uh: "useHierarchy x ?loc w1 = (ur, w2, uevs)"
        by (cases "useHierarchy x ?loc w1") auto
      obtain r3 w3 evs3 where rest: "mountCgroupTypes x cg ts w2 = (r3, w3, evs3)"
        by (cases "mountCgroupTypes x cg ts w2") auto
      show ?thesis
        using Cons.prems hm None True uh rest Cons.IH [OF rest] useHierarchy_cases [OF uh]
        by (auto simp: Let_def split: option.splits)
    qed
  qed
qed

text \<open>
  Claim C6. In every run of \<^verbatim>\<open>mountCgroups\<close>, a failed \<^verbatim>\<open>os.OpenFile\<close> makes the step
  return the error \<^verbatim>\<open>Failed to configure memory hierarchy: %v\<close>, and a failed
  \<^verbatim>\<open>WriteString\<close> makes it return \<^verbatim>\<open>Failed to configure memory heirarchy: %v\<close>, each
  with the error of the call. The step opens and writes no file but the control file
  of the memory controller, and does so right after that controller was mounted.
  Conversely, a run that returns \<^verbatim>\<open>nil\<close> has mounted the memory controller, opened
  \<^verbatim>\<open>memory.use_hierarchy\<close> under it and written \<^verbatim>\<open>1\<close> and a newline to it, all three
  with success.
\<close>

theorem memory_hierarchy_failure_is_fatal:
  "case mountCgroups x cgroupsMount w of
     (r, w', evs) \<Rightarrow>
       (\<forall>p e. OpenFile p (Some e) \<in> set evs \<longrightarrow>
          r = Some (Errorf ''Failed to configure memory hierarchy: %v'' [E e]))
     \<and> (\<forall>p s e. WriteString p s (Some e) \<in> set evs \<longrightarrow>
          r = Some (Errorf ''Failed to configure memory heirarchy: %v'' [E e]))
     \<and> (r = None \<longrightarrow>
          Mount ''none'' (filepath_Join x cgroupsMount ''memory'') ''cgroup'' ''memory'' None
            \<in> set evs
          \<and> OpenFile (filepath_Join x (filepath_Join x cgroupsMount ''memory'')
                 ''memory.use_hierarchy'') None \<in> set evs
          \<and> WriteString (filepath_Join x (filepath_Join x cgroupsMount ''memory'')
                 ''memory.use_hierarchy'') [CHR ''1'', CHR 0x0A] None \<in> set evs)"
proof -
  obtain r w' evs where run: "mountCgroupTypes x cgroupsMount cgroupTypes w = (r, w', evs)"
    by (cases "mountCgroupTypes x cgroupsMount cgroupTypes w") auto
  have mem: "''memory'' \<in> set cgroupTypes"
    by (simp add: cgroupTypes_def)
  show ?thesis
    using mountCgroupTypes_open_fails [OF run] mountCgroupTypes_write_fails [OF run]
      mountCgroupTypes_success [OF run _ mem]
    by (simp add: mountCgroups_def run)
qed

text \<open>
  All five controllers mount and the write fails: the step returns the error of the
  write.
\<close>

theorem memory_hierarchy_failure_is_fatal_witness:
  "fst (mountCgroups (sim [''write'']) ''/sys/fs/cgroup'' [])
     = Some (Errorf ''Failed to configure memory heirarchy: %v''
         [E (External ''write: failed'')])
   \<and> WriteString ''/sys/fs/cgroup/memory/memory.use_hierarchy'' [CHR ''1'', CHR 0x0A]
         (Some (External ''write: failed''))
       \<in> set (snd (snd (mountCgroups (sim [''write'']) ''/sys/fs/cgroup'' [])))
   \<and> Mount ''none'' ''/sys/fs/cgroup/memory'' ''cgroup'' ''memory'' None
       \<in> set (snd (snd (mountCgroups (sim [''write'']) ''/sys/fs/cgroup'' [])))"
  using memory_hierarchy_failure_is_fatal [where x = "sim [''write'']"
      and cgroupsMount = "''/sys/fs/cgroup''" and w = "[]"]
  by (simp add: mountCgroups_def cgroupTypes_def useHierarchy_def sim_def failure_def
      filepath_Join2_def filepath_Clean_def Let_def)

section \<open>Properties of the initial containers\<close>

lemma retrieved_append: "retrieved (a @ b) = retrieved a @ retrieved b"
  by (induction a rule: retrieved.induct) auto

lemma startOne_retrieved: "retrieved (snd (startOne x img w)) = [img]"
  by (auto simp: startOne_def split: prod.splits sum.splits option.splits)

lemma startOne_logged:
  "length (filter errorLogged (snd (startOne x img w)))
     = length (filter stageFailed (snd (startOne x img w)))"
  by (auto simp: startOne_def split: prod.splits sum.splits option.splits)

text \<open>
  Claim C9. For every list of images, every world and all collaborators,
  \<^verbatim>\<open>startInitContainers\<close> returns \<^verbatim>\<open>nil\<close>; \<^verbatim>\<open>remote.RetrieveImage\<close> is called once for each
  configured image, in the configured order, whatever failed before; and there are as
  many lines logged at the error level as there are failed stages (retrieval, manifest
  extraction, rewind, creation).
\<close>

theorem startInitContainers_isolated:
  "fst (startInitContainers x imgs w) = None
   \<and> retrieved (snd (snd (startInitContainers x imgs w))) = imgs
   \<and> length (filter errorLogged (snd (snd (startInitContainers x imgs w))))
       = length (filter stageFailed (snd (snd (startInitContainers x imgs w))))"
proof (induction imgs arbitrary: w)
  case Nil
  show ?case by simp
next
  case (Cons img imgs)
  obtain w1 evs where one: "startOne x img w = (w1, evs)"
    by (cases "startOne x img w") auto
  obtain r w2 evs' where rest: "startInitContainers x imgs w1 = (r, w2, evs')"
    by (cases "startInitContainers x imgs w1") auto
  show ?case
    using Cons.IH [of w1] one rest startOne_retrieved [of x img w] startOne_logged [of x img w]
    by (simp add: retrieved_append)
qed

text \<open>
  Two images, the first of which has no manifest: the failure is logged, the file is
  closed, and the second image is retrieved, rewound and created.
\<close>

theorem startInitContainers_isolated_witness:
  "startInitContainers (sim [''manifest a.aci'']) [''a.aci'', ''b.aci''] [] =
     (None,
      [''retrieve a.aci'', ''close a.aci'', ''retrieve b.aci'', ''seek b.aci'',
       ''create manifest of b.aci'', ''close b.aci''],
      [RetrieveImage ''a.aci'' None,
       FindManifest ''a.aci'' (Some (External ''failed to locate manifest file'')),
       Log LError ''Failed to find manifest in image %q: %v''
         [S ''a.aci'', E (External ''failed to locate manifest file'')],
       Close ''a.aci'',
       RetrieveImage ''b.aci'' None, FindManifest ''b.aci'' None, Seek ''b.aci'' None,
       ManagerCreate [] ''manifest of b.aci'' ''b.aci'' None,
       Log LInfo ''Launched container %s'' [S ''manifest of b.aci''],
       Close ''b.aci''])"
  using startInitContainers_isolated [of "sim [''manifest a.aci'']" "[''a.aci'', ''b.aci'']" "[]"]
  by (simp add: startOne_def sim_def failure_def)

section \<open>Properties of the network step\<close>

lemma findNetconf_find:
  "findNetconf M linkName ns
     = find (\<lambda>n. linkName = Device n \<or> fst (M (Device n) linkName)) ns"
  by (induction ns) auto

lemma findNetconf_agrees:
  "\<forall>n \<in> set ns. linkName \<noteq> Device n \<longrightarrow> \<not> fst (M (Device n) linkName) \<Longrightarrow>
   findNetconf M linkName ns = spec_findNetconf M linkName ns"
  by (induction ns) (auto simp: spec_findNetconf_def split: option.splits)

lemma configureLinks_selected:
  "ConfigureInterface link n r \<in> set (snd (configureLinks x ifaces links w)) \<Longrightarrow>
   findNetconf (regexp_MatchString x) link ifaces = Some n"
proof (induction links arbitrary: w)
  case Nil
  then show ?case by simp
next
  case (Cons l links)
  show ?case
  proof (cases "findNetconf (regexp_MatchString x) l ifaces")
    case None
    then show ?thesis
      using Cons.prems Cons.IH [of w]
      by (auto split: prod.splits)
  next
    case (Some netconf)
    obtain cr w1 where ci: "configureInterface x l netconf w = (cr, w1)"
      by (cases "configureInterface x l netconf w") auto
    show ?thesis
      using Cons.prems Cons.IH [of w1] Some ci
      by (cases cr) (auto split: prod.splits)
  qed
qed

text \<open>
  Claim C1, as stated, fails. The claim has exact equality tried across all entries
  before any device is read as a regular expression. The loop tries both on each entry
  in turn: for the link \<^verbatim>\<open>eth0\<close> and the entries with devices \<^verbatim>\<open>eth\<close> and \<^verbatim>\<open>eth0\<close>, the first
  entry is taken, since the pattern \<^verbatim>\<open>eth\<close> matches \<^verbatim>\<open>eth0\<close>, while the rule of the claim
  takes the second; and \<^verbatim>\<open>configureNetwork\<close> configures \<^verbatim>\<open>eth0\<close> with the first entry.
\<close>

theorem findNetconf_exact_first_counterexample:
  "findNetconf literalMatchString ''eth0''
      [\<lparr>Device = ''eth'', Settings = ''dhcp''\<rparr>, \<lparr>Device = ''eth0'', Settings = ''static''\<rparr>]
     = Some \<lparr>Device = ''eth'', Settings = ''dhcp''\<rparr>
   \<and> spec_findNetconf literalMatchString ''eth0''
      [\<lparr>Device = ''eth'', Settings = ''dhcp''\<rparr>, \<lparr>Device = ''eth0'', Settings = ''static''\<rparr>]
     = Some \<lparr>Device = ''eth0'', Settings = ''static''\<rparr>
   \<and> ConfigureInterface ''eth0'' \<lparr>Device = ''eth'', Settings = ''dhcp''\<rparr> None
       \<in> set (snd (snd (configureNetwork (sim [])
             (Some \<lparr>Interfaces = [\<lparr>Device = ''eth'', Settings = ''dhcp''\<rparr>,
                                   \<lparr>Device = ''eth0'', Settings = ''static''\<rparr>],
                     Gateway = [], DNS = []\<rparr>) [])))"
  by (simp add: spec_findNetconf_def literalMatchString_def configureNetwork_def
      configureGateway_def configureDNS_def sim_def failure_def)

text \<open>
  Claim C1, amended. For every link name, every list of entries and every matcher, the
  entry selected is the first one, in configured order, whose device is equal to the
  link name or, read as a regular expression, matches it. When no entry with another
  device matches the link name as a regular expression, this is the entry the rule of
  the claim selects; so for \<^verbatim>\<open>eth0\<close> and the devices \<^verbatim>\<open>eth1\<close>, \<^verbatim>\<open>eth0\<close> the second entry
  is selected, \<^verbatim>\<open>eth1\<close> not matching \<^verbatim>\<open>eth0\<close>. Every link that \<^verbatim>\<open>configureNetwork\<close>'s loop
  configures is configured with the entry selected for it.
\<close>

theorem findNetconf_first_match:
  "findNetconf M linkName ns
     = find (\<lambda>n. linkName = Device n \<or> fst (M (Device n) linkName)) ns
   \<and> ((\<forall>n \<in> set ns. linkName \<noteq> Device n \<longrightarrow> \<not> fst (M (Device n) linkName)) \<longrightarrow>
        findNetconf M linkName ns = spec_findNetconf M linkName ns)
   \<and> (\<not> fst (M ''eth1'' ''eth0'') \<longrightarrow>
        findNetconf M ''eth0'' [\<lparr>Device = ''eth1'', Settings = s1\<rparr>,
                               \<lparr>Device = ''eth0'', Settings = s2\<rparr>]
          = Some \<lparr>Device = ''eth0'', Settings = s2\<rparr>)
   \<and> (\<forall>link n r. ConfigureInterface link n r \<in> set (snd (configureLinks x ns links w)) \<longrightarrow>
        findNetconf (regexp_MatchString x) link ns = Some n)"
  using findNetconf_find [of M linkName ns] findNetconf_agrees [of ns linkName M]
    configureLinks_selected [of _ _ _ x ns links w]
  by simp

theorem findNetconf_first_match_witness:
  "findNetconf literalMatchString ''eth0''
      [\<lparr>Device = ''eth1'', Settings = ''dhcp''\<rparr>, \<lparr>Device = ''eth0'', Settings = ''static''\<rparr>]
     = Some \<lparr>Device = ''eth0'', Settings = ''static''\<rparr>
   \<and> spec_findNetconf literalMatchString ''eth0''
      [\<lparr>Device = ''eth1'', Settings = ''dhcp''\<rparr>, \<lparr>Device = ''eth0'', Settings = ''static''\<rparr>]
     = Some \<lparr>Device = ''eth0'', Settings = ''static''\<rparr>"
  using findNetconf_first_match [of literalMatchString "''eth0''"
      "[\<lparr>Device = ''eth1'', Settings = ''dhcp''\<rparr>, \<lparr>Device = ''eth0'', Settings = ''static''\<rparr>]"
      "''dhcp''" "''static''"]
  by (simp add: literalMatchString_def spec_findNetconf_def)

text \<open>
  Claim C2 fails on the code. When \<^verbatim>\<open>netlink.RouteAdd\<close> fails, \<^verbatim>\<open>configureNetwork\<close> logs the
  warning and returns \<^verbatim>\<open>nil\<close> at once: the trace ends with that warning, whatever the
  list of DNS servers is, and the resolver file is neither removed nor written.
\<close>

theorem route_failure_returns_before_dns:
  assumes "netlink_LinkList x w = (Inr links, w1)"
    and "configureLinks x (Interfaces nc) links w1 = (w2, evs)"
    and "Gateway nc \<noteq> []"
    and "netlink_RouteAdd x \<lparr>Scope = SCOPE_UNIVERSE, Gw = net_ParseIP x (Gateway nc)\<rparr> w2
           = (Some err, w3)"
  shows "configureNetwork x (Some nc) w =
           (None, w3,
            LinkList None # evs
            @ (if net_ParseIP x (Gateway nc) = None
               then [Log LWarn ''Failed to configure gatway to %q'' [S (Gateway nc)]] else [])
            @ [RouteAdd \<lparr>Scope = SCOPE_UNIVERSE, Gw = net_ParseIP x (Gateway nc)\<rparr> (Some err),
               Log LWarn ''Failed to configure gateway: %v'' [E err]])"
  using assms by (simp add: configureNetwork_def configureGateway_def Let_def)

text \<open>
  The gateway \<^verbatim>\<open>10.0.0.1\<close>, one DNS server and a route that cannot be installed: the step
  returns \<^verbatim>\<open>nil\<close>, and nothing is done about \<^verbatim>\<open>/etc/resolv.conf\<close>.
\<close>

theorem route_failure_returns_before_dns_witness:
  "configureNetwork (sim [''route''])
      (Some \<lparr>Interfaces = [], Gateway = ''10.0.0.1'', DNS = [''8.8.8.8'']\<rparr>) []
     = (None, [],
        [LinkList None,
         Log LInfo ''Configuring %s...'' [S ''lo''],
         Log LWarn ''- no matching network configuraton found'' [],
         Log LInfo ''Configuring %s...'' [S ''eth0''],
         Log LWarn ''- no matching network configuraton found'' [],
         RouteAdd \<lparr>Scope = SCOPE_UNIVERSE, Gw = Some ''10.0.0.1''\<rparr>
           (Some (External ''route: failed'')),
         Log LWarn ''Failed to configure gateway: %v'' [E (External ''route: failed'')]])"
  using route_failure_returns_before_dns [of "sim [''route'']" "[]" "[''lo'', ''eth0'']" "[]"
      "\<lparr>Interfaces = [], Gateway = ''10.0.0.1'', DNS = [''8.8.8.8'']\<rparr>" "[]"
      "[Log LInfo ''Configuring %s...'' [S ''lo''],
        Log LWarn ''- no matching network configuraton found'' [],
        Log LInfo ''Configuring %s...'' [S ''eth0''],
        Log LWarn ''- no matching network configuraton found'' []]"
      "External ''route: failed''" "[]"]
  by (simp add: sim_def failure_def parseIPv4_def octet_def)

text \<open>
  Claim C3 fails on the code. When the gateway does not parse, the warning is logged
  and \<^verbatim>\<open>netlink.RouteAdd\<close> is called all the same, with the nil address as gateway.
\<close>

theorem unparseable_gateway_still_routed:
  assumes "netlink_LinkList x w = (Inr links, w1)"
    and "configureLinks x (Interfaces nc) links w1 = (w2, evs)"
    and "Gateway nc \<noteq> []"
    and "net_ParseIP x (Gateway nc) = None"
    and "netlink_RouteAdd x \<lparr>Scope = SCOPE_UNIVERSE, Gw = None\<rparr> w2 = (r, w3)"
  shows "\<exists>rest. snd (snd (configureNetwork x (Some nc) w)) =
           LinkList None # evs
           @ [Log LWarn ''Failed to configure gatway to %q'' [S (Gateway nc)],
              RouteAdd \<lparr>Scope = SCOPE_UNIVERSE, Gw = None\<rparr> r] @ rest"
  using assms
  by (cases r) (auto simp: configureNetwork_def configureGateway_def split: prod.splits)

theorem unparseable_gateway_still_routed_witness:
  "configureNetwork (sim [])
      (Some \<lparr>Interfaces = [], Gateway = ''gateway'', DNS = []\<rparr>) []
     = (None, [''route nil''],
        [LinkList None,
         Log LInfo ''Configuring %s...'' [S ''lo''],
         Log LWarn ''- no matching network configuraton found'' [],
         Log LInfo ''Configuring %s...'' [S ''eth0''],
         Log LWarn ''- no matching network configuraton found'' [],
         Log LWarn ''Failed to configure gatway to %q'' [S ''gateway''],
         RouteAdd \<lparr>Scope = SCOPE_UNIVERSE, Gw = None\<rparr> None,
         Log LInfo ''Configured gatway to %s'' [S ''gateway'']])"
  using unparseable_gateway_still_routed [of "sim []" "[]" "[''lo'', ''eth0'']" "[]"
      "\<lparr>Interfaces = [], Gateway = ''gateway'', DNS = []\<rparr>" "[]"
      "[Log LInfo ''Configuring %s...'' [S ''lo''],
        Log LWarn ''- no matching network configuraton found'' [],
        Log LInfo ''Configuring %s...'' [S ''eth0''],
        Log LWarn ''- no matching network configuraton found'' []]"
      "None" "[''route nil'']"]
  by (simp add: sim_def failure_def parseIPv4_def configureNetwork_def
      configureGateway_def configureDNS_def)

section \<open>Properties of the manifest extraction\<close>

lemma scanManifest_first:
  "list_all (otherEntry Clean) pre \<Longrightarrow> Clean name = ''manifest'' \<Longrightarrow>
   scanManifest Clean (pre @ Header name body # post)
     = (case body of Inl err \<Rightarrow> Inl err | Inr b \<Rightarrow> Inr b)"
proof (induction pre)
  case Nil
  then show ?case by simp
next
  case (Cons a pre)
  then show ?case by (cases a) auto
qed

lemma scanManifest_none:
  "list_all (otherEntry Clean) arch \<Longrightarrow>
   scanManifest Clean arch = Inl (Errorf ''failed to locate manifest file'' [])"
proof (induction arch)
  case Nil
  then show ?case by simp
next
  case (Cons a arch)
  then show ?case by (cases a) auto
qed

lemma scanManifest_only:
  assumes "filter (\<lambda>i. \<not> otherEntry Clean i) arch = [Header name (Inr X)]"
  shows "scanManifest Clean arch = Inr X"
proof -
  obtain pre post where arch: "arch = pre @ Header name (Inr X) # post"
    and pre: "\<forall>u\<in>set pre. otherEntry Clean u"
    and m: "\<not> otherEntry Clean (Header name (Inr X))"
    using assms unfolding filter_eq_Cons_iff by auto
  have "list_all (otherEntry Clean) pre"
    using pre by (simp add: list_all_iff)
  moreover have "Clean name = ''manifest''"
    using m by simp
  ultimately show ?thesis
    unfolding arch by (simp add: scanManifest_first)
qed

text \<open>
  Claim C7, as stated, fails. The claim returns the content \<open>X\<close> of any entry of the
  archive whose cleaned path is \<^verbatim>\<open>manifest\<close>. An archive can hold two such entries (a tar
  file may repeat a name); \<^verbatim>\<open>findManifest\<close> returns at the first one and never reads the
  second, so for the second entry and its content the claim does not hold.
\<close>

theorem findManifest_any_entry_counterexample:
  "Header ''manifest'' (Inr ''B'')
     \<in> set [Header ''manifest'' (Inr ''A''), Header ''manifest'' (Inr ''B'')]
   \<and> filepath_Clean ''manifest'' = ''manifest''
   \<and> findManifest filepath_Clean
        (Inr [Header ''manifest'' (Inr ''A''), Header ''manifest'' (Inr ''B'')]) = Inr ''A''
   \<and> findManifest filepath_Clean
        (Inr [Header ''manifest'' (Inr ''A''), Header ''manifest'' (Inr ''B'')]) \<noteq> Inr ''B''"
  by (simp add: findManifest_def filepath_Clean_def)

text \<open>
  Claim C7, amended. When the results of \<^verbatim>\<open>Next\<close> before an entry are all headers with
  another cleaned path, and the cleaned path of the entry is \<^verbatim>\<open>manifest\<close>, that is, for
  the first such entry, \<^verbatim>\<open>findManifest\<close> returns exactly the content \<open>X\<close> of that entry,
  whatever follows it. In particular it returns \<open>X\<close> when the archive is read without
  error and exactly one entry has the cleaned path \<^verbatim>\<open>manifest\<close>, with content \<open>X\<close>. When
  the entries are exhausted and every one is a header with another cleaned path, it
  fails with the error \<^verbatim>\<open>failed to locate manifest file\<close>.
\<close>

theorem findManifest_first_entry:
  "(list_all (otherEntry Clean) pre \<and> Clean name = ''manifest'' \<longrightarrow>
      findManifest Clean (Inr (pre @ Header name (Inr X) # post)) = Inr X)
   \<and> (filter (\<lambda>i. \<not> otherEntry Clean i) arch = [Header name (Inr X)] \<longrightarrow>
      findManifest Clean (Inr arch) = Inr X)
   \<and> (list_all (otherEntry Clean) arch \<longrightarrow>
      findManifest Clean (Inr arch) = Inl (Errorf ''failed to locate manifest file'' []))"
  using scanManifest_first [of Clean pre name "Inr X" post]
    scanManifest_only [of Clean arch name X] scanManifest_none [of Clean arch]
  by (simp add: findManifest_def)

text \<open>
  \<^verbatim>\<open>./manifest\<close> cleans to \<^verbatim>\<open>manifest\<close> and is found after a file of the root filesystem;
  \<^verbatim>\<open>rootfs/manifest\<close> is another path, and the archive that holds only that one has no
  manifest.
\<close>

theorem findManifest_first_entry_witness:
  "findManifest filepath_Clean
      (Inr [Header ''rootfs/bin/sh'' (Inr ''#!''), Header ''./manifest'' (Inr ''{}''),
            Header ''manifest'' (Inr ''B'')]) = Inr ''{}''
   \<and> findManifest filepath_Clean
      (Inr [Header ''rootfs'' (Inr []), Header ''rootfs/manifest'' (Inr ''{}'')])
       = Inl (Errorf ''failed to locate manifest file'' [])"
  using findManifest_first_entry [of filepath_Clean "[Header ''rootfs/bin/sh'' (Inr ''#!'')]"
      "''./manifest''" "''{}''" "[Header ''manifest'' (Inr ''B'')]"
      "[Header ''rootfs'' (Inr []), Header ''rootfs/manifest'' (Inr ''{}'')]"]
  by (simp add: filepath_Clean_def findManifest_def)

section \<open>Properties of the streaming upload\<close>

lemma chunks_Nil: "chunks C [] = []"
  by (subst chunks.simps) simp

lemma chunks_step: "0 < C \<Longrightarrow> bs \<noteq> [] \<Longrightarrow> chunks C bs = take C bs # chunks C (drop C bs)"
  by (subst chunks.simps) simp

lemma length_chunks: "0 < C \<Longrightarrow> length (chunks C bs) = (length bs + C - 1) div C"
proof (induction C bs rule: chunks.induct)
  case (1 C bs)
  show ?case
  proof (cases "bs = []")
    case True
    then show ?thesis using 1 by (simp add: chunks_Nil)
  next
    case False
    then have pos: "0 < length bs" by simp
    have step: "length (chunks C bs) = Suc (length (chunks C (drop C bs)))"
      using False 1 by (simp add: chunks_step)
    have ih: "length (chunks C (drop C bs)) = (length bs - C + C - 1) div C"
      using 1 False by simp
    have split: "length bs + C - 1 = (length bs - 1) + C"
      using pos by linarith
    have "(length bs + C - 1) div C = Suc ((length bs - 1) div C)"
      unfolding split using 1(2) by simp
    moreover have "(length bs - C + C - 1) div C = (length bs - 1) div C"
    proof (cases "C \<le> length bs")
      case True
      then show ?thesis by simp
    next
      case False
      then show ?thesis using pos by simp
    qed
    ultimately show ?thesis using step ih by simp
  qed
qed

lemma concat_chunks: "0 < C \<Longrightarrow> concat (chunks C bs) = bs"
proof (induction C bs rule: chunks.induct)
  case (1 C bs)
  show ?case
  proof (cases "bs = []")
    case True
    then show ?thesis by (simp add: chunks_Nil)
  next
    case False
    have "concat (chunks C bs) = take C bs @ concat (chunks C (drop C bs))"
      using False 1 by (simp add: chunks_step)
    then show ?thesis using 1 False by simp
  qed
qed

lemma ceil_div: "0 < C \<Longrightarrow> \<lceil>real n / real C\<rceil> = int ((n + C - 1) div C)"
proof (rule ceiling_unique)
  assume C: "0 < C"
  let ?k = "(n + C - 1) div C"
  have a: "?k * C \<le> n + C - 1"
    by simp
  have b: "n + C - 1 < (Suc ?k) * C"
    using C by (metis dividend_less_div_times mult.commute mult_Suc)
  have a': "?k * C < n + C"
    using a C by linarith
  have b': "n \<le> ?k * C"
    using b C by simp
  have ra: "real ?k * real C < real n + real C"
    using a' by (metis of_nat_add of_nat_less_iff of_nat_mult)
  have rb: "real n \<le> real ?k * real C"
    using b' by (metis of_nat_le_iff of_nat_mult)
  have rc: "(real ?k - 1) * real C < real n"
    using ra by (simp add: algebra_simps)
  have "real ?k - 1 < real n / real C"
    using rc C by (subst pos_less_divide_eq) simp_all
  then show "real_of_int (int ?k) - 1 < real n / real C"
    by simp
  have "real n / real C \<le> real ?k"
    using rb C by (subst pos_divide_le_eq) simp_all
  then show "real n / real C \<le> real_of_int (int ?k)"
    by simp
qed


lemma sent_append: "sent (a @ b) = sent a @ sent b"
  by (induction a rule: sent.induct) auto

lemma acks_append: "acks (a @ b) = acks a @ acks b"
  by (induction a rule: acks.induct) auto

lemma sent_sends: "sent (map (\<lambda>b. Send uploadId b None) bs) = map (\<lambda>b. (uploadId, b, None)) bs"
  by (induction bs) auto

lemma acks_sends: "acks (map (\<lambda>b. Send uploadId b None) bs) = []"
  by (induction bs) auto

lemma copyChunks_ids:
  "copyChunks c uploadId bs w = (r, w', evs) \<Longrightarrow> \<forall>m \<in> set (sent evs). fst m = uploadId"
proof (induction bs arbitrary: w r w' evs)
  case Nil
  then show ?case by simp
next
  case (Cons b bs)
  obtain sr w1 where s: "stream_Send c uploadId b w = (sr, w1)"
    by (cases "stream_Send c uploadId b w") auto
  obtain r2 w2 evs2 where rest: "copyChunks c uploadId bs w1 = (r2, w2, evs2)"
    by (cases "copyChunks c uploadId bs w1") auto
  show ?case
    using Cons.prems s rest Cons.IH [OF rest]
    by (cases sr) auto
qed

lemma copyChunks_all_sent:
  "copyChunks c uploadId bs w = (r, w', evs) \<Longrightarrow> \<forall>m \<in> set (sent evs). snd (snd m) = None \<Longrightarrow>
   r = None \<and> evs = map (\<lambda>b. Send uploadId b None) bs"
proof (induction bs arbitrary: w r w' evs)
  case Nil
  then show ?case by simp
next
  case (Cons b bs)
  obtain sr w1 where s: "stream_Send c uploadId b w = (sr, w1)"
    by (cases "stream_Send c uploadId b w") auto
  obtain r2 w2 evs2 where rest: "copyChunks c uploadId bs w1 = (r2, w2, evs2)"
    by (cases "copyChunks c uploadId bs w1") auto
  show ?case
    using Cons.prems s rest Cons.IH [OF rest]
    by (cases sr) auto
qed

text \<open>
  Claim C8. Take a content of \<open>N\<close> bytes, a chunk size \<open>C > 0\<close> and a run of the upload
  in which the stream was opened and no send failed. Then the number of messages sent
  is the ceiling of \<open>N / C\<close>, which is \<open>(N + C - 1) div C\<close>; every message carries the
  upload identifier; the bytes of the messages, one after the other, are the content,
  so \<open>N\<close> bytes are delivered; and the trace is the opening of the stream, the sends
  and then one \<^verbatim>\<open>CloseAndRecv\<close>, whose result is what the upload returns: the stream is
  closed after the copy and one acknowledgment is awaited.
\<close>

theorem upload_chunks:
  assumes "0 < C"
    and "upload c C uploadId content w = (r, w', evs)"
    and "UploadImage None \<in> set evs"
    and "\<forall>m \<in> set (sent evs). snd (snd m) = None"
  shows "int (length (sent evs)) = \<lceil>real (length content) / real C\<rceil>
       \<and> length (sent evs) = (length content + C - 1) div C
       \<and> (\<forall>m \<in> set (sent evs). fst m = uploadId)
       \<and> concat (map (fst \<circ> snd) (sent evs)) = content
       \<and> length (concat (map (fst \<circ> snd) (sent evs))) = length content
       \<and> evs = UploadImage None # map (\<lambda>b. Send uploadId b None) (chunks C content)
                 @ [CloseAndRecv r]
       \<and> acks evs = [r]"
proof -
  obtain ur w1 where u: "client_UploadImage c w = (ur, w1)"
    by (cases "client_UploadImage c w") auto
  have opened: "ur = None"
    using assms(2,3) u by (cases ur) (auto simp: upload_def)
  obtain cr w2 cevs where cp: "copyChunks c uploadId (chunks C content) w1 = (cr, w2, cevs)"
    by (cases "copyChunks c uploadId (chunks C content) w1") auto
  obtain ar w3 where cl: "stream_CloseAndRecv c w2 = (ar, w3)"
    by (cases "stream_CloseAndRecv c w2") auto
  have sub: "sent cevs = sent evs"
    using assms(2) u opened cp cl
    by (cases cr) (auto simp: upload_def sent_append)
  have all: "cr = None \<and> cevs = map (\<lambda>b. Send uploadId b None) (chunks C content)"
    using copyChunks_all_sent [OF cp] assms(4) sub by simp
  have evs: "evs = UploadImage None # map (\<lambda>b. Send uploadId b None) (chunks C content)
                 @ [CloseAndRecv r]"
    using assms(2) u opened cp cl all by (auto simp: upload_def)
  have snt: "sent evs = map (\<lambda>b. (uploadId, b, None)) (chunks C content)"
    by (subst evs) (simp add: sent_append sent_sends)
  have payload: "map (fst \<circ> snd) (sent evs) = chunks C content"
    unfolding snt by (simp add: comp_def)
  have len: "length (sent evs) = (length content + C - 1) div C"
    unfolding snt using assms(1) by (simp add: length_chunks)
  have ack: "acks evs = [r]"
    by (subst evs) (simp add: acks_append acks_sends)
  have c1: "int (length (sent evs)) = \<lceil>real (length content) / real C\<rceil>"
    using len ceil_div [OF assms(1), of "length content"] by simp
  have c3: "\<forall>m \<in> set (sent evs). fst m = uploadId"
    unfolding snt by simp
  have c4: "concat (map (fst \<circ> snd) (sent evs)) = content"
    unfolding payload using assms(1) by (rule concat_chunks)
  have c5: "length (concat (map (fst \<circ> snd) (sent evs))) = length content"
    unfolding c4 by (rule refl)
  show ?thesis
    using c1 len c3 c4 c5 evs ack by blast
qed

text \<open>Ten bytes in chunks of four: three messages, of four, four and two bytes.\<close>

theorem upload_chunks_witness:
  "upload (simClient []) 4 ''id7'' ''0123456789'' [] =
     (None, [''stream'', ''id7:0123'', ''id7:4567'', ''id7:89'', ''closed''],
      [UploadImage None, Send ''id7'' ''0123'' None, Send ''id7'' ''4567'' None,
       Send ''id7'' ''89'' None, CloseAndRecv None])
   \<and> int (length (sent (snd (snd (upload (simClient []) 4 ''id7'' ''0123456789'' [])))))
       = \<lceil>real (length ''0123456789'') / real (4 :: nat)\<rceil>
   \<and> length (sent (snd (snd (upload (simClient []) 4 ''id7'' ''0123456789'' [])))) = 3"
proof -
  have run: "upload (simClient []) 4 ''id7'' ''0123456789'' [] =
     (None, [''stream'', ''id7:0123'', ''id7:4567'', ''id7:89'', ''closed''],
      [UploadImage None, Send ''id7'' ''0123'' None, Send ''id7'' ''4567'' None,
       Send ''id7'' ''89'' None, CloseAndRecv None])"
    by (simp add: upload_def simClient_def failure_def chunks.simps)
  have pos: "0 < (4 :: nat)" by simp
  show ?thesis
    using upload_chunks [OF pos run] run by simp
qed

end
